theory Spec2Isabelle
  imports Main
begin

section \<open>Strings\<close>

text \<open>
  A Python \<open>str\<close> is a sequence of Unicode code points, and \<open>re\<close> matches a character
  class against one code point at a time. A string is therefore modelled as a list of
  code points (natural numbers), not as a list of bytes. \<open>lit\<close> turns an ASCII literal
  of the source into that representation.
\<close>

type_synonym codepoint = nat
type_synonym pystr = "codepoint list"

definition lit :: "string \<Rightarrow> pystr" where
  "lit s = map of_char s"

definition cp :: "char \<Rightarrow> codepoint" where
  "cp c = of_char c"

subsection \<open>safe_id (ingest_pdf.py, lines 12-17)\<close>

text \<open>
  The character class of the pattern \<^verbatim>\<open>[^a-zA-Z0-9_\-=]\<close>, without the negation:
  the ranges a-z, A-Z, 0-9 and the three single characters underscore, hyphen, equals.
\<close>

definition allowed :: "codepoint \<Rightarrow> bool" where
  "allowed c \<longleftrightarrow>
     (cp CHR ''a'' \<le> c \<and> c \<le> cp CHR ''z'') \<or>
     (cp CHR ''A'' \<le> c \<and> c \<le> cp CHR ''Z'') \<or>
     (cp CHR ''0'' \<le> c \<and> c \<le> cp CHR ''9'') \<or>
     c = cp CHR ''_'' \<or> c = cp CHR ''-'' \<or> c = cp CHR ''=''"

text \<open>
  \<open>re.sub(pattern, repl, text)\<close> for a pattern that is one character class: the text is
  scanned from the left, every code point that matches is replaced by \<open>repl\<close>, every
  other one is kept. (A class matches exactly one code point, so matches never overlap
  and never are empty; \<open>repl\<close> here holds no backslash and no group reference.)
\<close>

fun re_sub_class :: "(codepoint \<Rightarrow> bool) \<Rightarrow> pystr \<Rightarrow> pystr \<Rightarrow> pystr" where
  "re_sub_class m repl [] = []"
| "re_sub_class m repl (c # cs) =
     (if m c then repl @ re_sub_class m repl cs else c # re_sub_class m repl cs)"

definition safe_id :: "pystr \<Rightarrow> pystr" where
  "safe_id text = re_sub_class (\<lambda>c. \<not> allowed c) (lit ''_'') text"

subsection \<open>Formatting an int inside an f-string\<close>

text \<open>
  \<open>f"{page_num}"\<close> is \<open>str(page_num)\<close>: the decimal digits of the absolute value, most
  significant first and without leading zeros, after a minus sign when the number is
  negative. Python's int is unbounded, so the page number is an \<open>int\<close>.
\<close>

fun digits :: "nat \<Rightarrow> pystr" where
  "digits n =
     (if n < 10 then [cp CHR ''0'' + n]
      else digits (n div 10) @ [cp CHR ''0'' + n mod 10])"

declare digits.simps [simp del]

definition str_int :: "int \<Rightarrow> pystr" where
  "str_int i = (if i < 0 then cp CHR ''-'' # digits (nat (- i)) else digits (nat i))"

subsection \<open>Errors, effects and the outside world\<close>

text \<open>
  Every exception that the code can meet is an instance of Python's \<open>Exception\<close>:
  a \<open>KeyError\<close> or \<open>AttributeError\<close> raised by the interpreter, or whatever a library
  or service call raises (\<open>Exception\<close>, with its message). A computation takes the
  state of the world and returns the new state together with either the exception it
  raised (\<open>Inl\<close>) or its value (\<open>Inr\<close>).
\<close>

datatype error = KeyError pystr | AttributeError pystr | Exception pystr

type_synonym ('a, 'w) io = "'w \<Rightarrow> (error + 'a) \<times> 'w"

definition return_io :: "'a \<Rightarrow> ('a, 'w) io" where
  "return_io a w = (Inr a, w)"

definition bind_io :: "('a, 'w) io \<Rightarrow> ('a \<Rightarrow> ('b, 'w) io) \<Rightarrow> ('b, 'w) io" where
  "bind_io m f w = (case m w of (Inl e, w') \<Rightarrow> (Inl e, w') | (Inr a, w') \<Rightarrow> f a w')"

text \<open>\<open>try: body except Exception as e: handler(e)\<close>\<close>

definition try_except :: "('a, 'w) io \<Rightarrow> (error \<Rightarrow> ('a, 'w) io) \<Rightarrow> ('a, 'w) io" where
  "try_except body handler w =
     (case body w of (Inl e, w') \<Rightarrow> handler e w' | (Inr a, w') \<Rightarrow> (Inr a, w'))"

text \<open>
  The libraries and cloud services (PyMuPDF, PIL, the file system, Azure OpenAI, Azure AI
  Search) are not part of the repository. Each call to one of them is a function of its
  arguments and of the hidden state \<open>ext\<close> of the outside world, which it may change, and
  its outcome is an exception or a value. Nothing is assumed about these functions.
\<close>

record 'x ext_state =
  ext :: 'x

definition call :: "('x \<Rightarrow> 'r \<times> 'x) \<Rightarrow> ('x, 'm) ext_state_scheme \<Rightarrow> 'r \<times> ('x, 'm) ext_state_scheme" where
  "call f w = (case f (ext w) of (r, x') \<Rightarrow> (r, w\<lparr>ext := x'\<rparr>))"

subsection \<open>The indexed record (ingest_pdf.py, lines 196-205)\<close>

text \<open>
  The dict built for every document. \<open>id\<close> and \<open>section\<close> are called \<open>id_field\<close> and
  \<open>section_field\<close> here; \<open>'v\<close> is the type of an embedding vector.
\<close>

record 'v document =
  id_field :: pystr
  content :: pystr
  contentVector :: 'v
  doc :: pystr
  page :: int
  section_field :: pystr
  year :: pystr
  content_type :: pystr

text \<open>The f-string of line 197: \<^verbatim>\<open>f"{safe_doc_name}_page_{page_num}_{content_type}"\<close>.\<close>

definition record_id :: "pystr \<Rightarrow> int \<Rightarrow> pystr \<Rightarrow> pystr" where
  "record_id safe_doc_name page_num ctype =
     safe_doc_name @ lit ''_page_'' @ str_int page_num @ lit ''_'' @ ctype"

text \<open>
  What the ingestion script prints, one constructor for each \<open>print\<close> of the source:
  line 214 (start), 220 (processing a page), 226 (image size, in bytes here), 208
  (page stored), 240 (page failed) and 242 (completed).
\<close>

datatype event =
    Starting pystr
  | Processing int
  | ImageSize nat
  | Stored int pystr
  | Failed int error
  | Completed

text \<open>
  The world of the ingestion script: what it printed, the batches that
  \<open>search_client.upload_documents\<close> accepted (one list of documents for each call that
  returned), and the hidden state of the outside world.
\<close>

record ('v, 'x) world = "'x ext_state" +
  stdout :: "event list"
  index_uploads :: "'v document list list"

definition py_print :: "event \<Rightarrow> (unit, ('v, 'x) world) io" where
  "py_print ev w = (Inr (), w\<lparr>stdout := stdout w @ [ev]\<rparr>)"

text \<open>
  The calls of ingest_pdf.py that leave the repository. \<open>convert_to_jpeg\<close>,
  \<open>extract_page_detail\<close>, \<open>generate_page_summary\<close> and \<open>create_embedding\<close> are functions of
  the source whose whole body is such a call; each is modelled by what it returns or
  raises. \<open>fitz_open\<close> gives the number of pages of the document; \<open>render_page\<close> stands
  for \<open>load_page\<close>, \<open>get_pixmap\<close> and \<open>save\<close> of one page.
\<close>

record ('v, 'x) ingest_services =
  temporary_directory :: "'x \<Rightarrow> (error + pystr) \<times> 'x"
  cleanup :: "pystr \<Rightarrow> 'x \<Rightarrow> (error + unit) \<times> 'x"
  path_join :: "pystr \<Rightarrow> pystr \<Rightarrow> pystr"
  fitz_open :: "pystr \<Rightarrow> 'x \<Rightarrow> (error + nat) \<times> 'x"
  render_page :: "pystr \<Rightarrow> nat \<Rightarrow> pystr \<Rightarrow> 'x \<Rightarrow> (error + unit) \<times> 'x"
  convert_to_jpeg :: "pystr \<Rightarrow> 'x \<Rightarrow> (error + pystr) \<times> 'x"
  getsize :: "pystr \<Rightarrow> 'x \<Rightarrow> (error + nat) \<times> 'x"
  extract_page_detail :: "pystr \<Rightarrow> 'x \<Rightarrow> (error + pystr) \<times> 'x"
  generate_page_summary :: "pystr \<Rightarrow> 'x \<Rightarrow> (error + pystr) \<times> 'x"
  create_embedding :: "pystr \<Rightarrow> 'x \<Rightarrow> (error + 'v) \<times> 'x"
  upload_documents :: "'v document list \<Rightarrow> 'x \<Rightarrow> (error + unit) \<times> 'x"

subsection \<open>pdf_to_images (ingest_pdf.py, lines 60-79)\<close>

fun render_pages ::
  "('v, 'x) ingest_services \<Rightarrow> pystr \<Rightarrow> pystr \<Rightarrow> nat list \<Rightarrow> (int \<times> pystr) list \<Rightarrow>
   ((int \<times> pystr) list, ('v, 'x) world) io" where
  "render_pages sv pdf_path output_dir [] image_paths = return_io image_paths"
| "render_pages sv pdf_path output_dir (page_index # rest) image_paths =
     (let image_path = path_join sv output_dir
            (lit ''page_'' @ str_int (int page_index + 1) @ lit ''.png'')
      in bind_io (call (render_page sv pdf_path page_index image_path)) (\<lambda>_.
         render_pages sv pdf_path output_dir rest
           (image_paths @ [(int page_index + 1, image_path)])))"

definition pdf_to_images ::
  "('v, 'x) ingest_services \<Rightarrow> pystr \<Rightarrow> pystr \<Rightarrow> ((int \<times> pystr) list, ('v, 'x) world) io" where
  "pdf_to_images sv pdf_path output_dir =
     bind_io (call (fitz_open sv pdf_path)) (\<lambda>n.
     render_pages sv pdf_path output_dir [0..<n] [])"

subsection \<open>upload_page (ingest_pdf.py, lines 180-208)\<close>

text \<open>
  The dict literal of lines 196-205, with the embedding already computed, and the loop
  of lines 192-205 over the two (content, content type) pairs: each round asks for the
  embedding of \<open>content\<close>, which may raise, and appends one document.
\<close>

definition make_document ::
  "pystr \<Rightarrow> pystr \<Rightarrow> int \<Rightarrow> pystr \<Rightarrow> pystr \<Rightarrow> pystr \<Rightarrow> pystr \<Rightarrow> 'v \<Rightarrow> 'v document" where
  "make_document safe_doc_name doc_name page_num yr sect cont ctype vec =
     \<lparr>id_field = record_id safe_doc_name page_num ctype,
      content = cont,
      contentVector = vec,
      doc = doc_name,
      page = page_num,
      section_field = sect,
      year = yr,
      content_type = ctype\<rparr>"

fun build_documents ::
  "('v, 'x) ingest_services \<Rightarrow> pystr \<Rightarrow> pystr \<Rightarrow> int \<Rightarrow> pystr \<Rightarrow> pystr \<Rightarrow>
   (pystr \<times> pystr) list \<Rightarrow> 'v document list \<Rightarrow> ('v document list, ('v, 'x) world) io" where
  "build_documents sv safe_doc_name doc_name page_num yr sect [] documents =
     return_io documents"
| "build_documents sv safe_doc_name doc_name page_num yr sect ((cont, ctype) # rest) documents =
     bind_io (call (create_embedding sv cont)) (\<lambda>vec.
     build_documents sv safe_doc_name doc_name page_num yr sect rest
       (documents @
        [make_document safe_doc_name doc_name page_num yr sect cont ctype vec]))"

text \<open>\<open>search_client.upload_documents(documents)\<close>: a batch that the service accepts is recorded.\<close>

definition search_upload ::
  "('v, 'x) ingest_services \<Rightarrow> 'v document list \<Rightarrow> (unit, ('v, 'x) world) io" where
  "search_upload sv documents =
     bind_io (call (upload_documents sv documents)) (\<lambda>_ w.
       (Inr (), w\<lparr>index_uploads := index_uploads w @ [documents]\<rparr>))"

definition upload_page ::
  "('v, 'x) ingest_services \<Rightarrow> pystr \<Rightarrow> int \<Rightarrow> pystr \<Rightarrow> pystr \<Rightarrow> pystr \<Rightarrow> pystr \<Rightarrow>
   (unit, ('v, 'x) world) io" where
  "upload_page sv doc_name page_num yr detail_text summary_text sect =
     (let safe_doc_name = safe_id doc_name
      in bind_io (build_documents sv safe_doc_name doc_name page_num yr sect
                    [(detail_text, lit ''page_detail''), (summary_text, lit ''page_summary'')] [])
           (\<lambda>documents.
         bind_io (search_upload sv documents) (\<lambda>_.
         py_print (Stored page_num doc_name))))"

subsection \<open>ingest_pdf (ingest_pdf.py, lines 213-242)\<close>

text \<open>The body of the \<open>try\<close> (lines 223-237), for one page.\<close>

definition process_page ::
  "('v, 'x) ingest_services \<Rightarrow> pystr \<Rightarrow> pystr \<Rightarrow> int \<Rightarrow> pystr \<Rightarrow> (unit, ('v, 'x) world) io" where
  "process_page sv doc_name yr page_num image_path =
     bind_io (call (convert_to_jpeg sv image_path)) (\<lambda>image_path.
     bind_io (call (getsize sv image_path)) (\<lambda>size_bytes.
     bind_io (py_print (ImageSize size_bytes)) (\<lambda>_.
     bind_io (call (extract_page_detail sv image_path)) (\<lambda>detail_text.
     bind_io (call (generate_page_summary sv detail_text)) (\<lambda>summary_text.
     upload_page sv doc_name page_num yr detail_text summary_text (lit ''Auto-detected''))))))"

text \<open>The loop of lines 219-240 over the page images.\<close>

fun ingest_pages ::
  "('v, 'x) ingest_services \<Rightarrow> pystr \<Rightarrow> pystr \<Rightarrow> (int \<times> pystr) list \<Rightarrow>
   (unit, ('v, 'x) world) io" where
  "ingest_pages sv doc_name yr [] = return_io ()"
| "ingest_pages sv doc_name yr ((page_num, image_path) # rest) =
     bind_io (py_print (Processing page_num)) (\<lambda>_.
     bind_io (try_except (process_page sv doc_name yr page_num image_path)
                (\<lambda>e. py_print (Failed page_num e))) (\<lambda>_.
     ingest_pages sv doc_name yr rest))"

text \<open>
  \<open>with tempfile.TemporaryDirectory() as tmpdir\<close>: the directory is removed when the
  block is left, also when it is left by an exception; an exception raised by the
  removal replaces the one of the block.
\<close>

definition with_temporary_directory ::
  "('v, 'x) ingest_services \<Rightarrow> (pystr \<Rightarrow> ('a, ('v, 'x) world) io) \<Rightarrow> ('a, ('v, 'x) world) io" where
  "with_temporary_directory sv body =
     bind_io (call (temporary_directory sv)) (\<lambda>tmpdir w.
       case body tmpdir w of (r, w') \<Rightarrow>
         (case call (cleanup sv tmpdir) w' of
            (Inl e, w'') \<Rightarrow> (Inl e, w'')
          | (Inr _, w'') \<Rightarrow> (r, w'')))"

definition ingest_pdf ::
  "('v, 'x) ingest_services \<Rightarrow> pystr \<Rightarrow> pystr \<Rightarrow> pystr \<Rightarrow> (unit, ('v, 'x) world) io" where
  "ingest_pdf sv pdf_path doc_name yr =
     bind_io (py_print (Starting pdf_path)) (\<lambda>_.
     bind_io (with_temporary_directory sv (\<lambda>tmpdir.
       bind_io (pdf_to_images sv pdf_path tmpdir) (\<lambda>page_images.
       ingest_pages sv doc_name yr page_images))) (\<lambda>_.
     py_print Completed))"

text \<open>
  Reading the output of a run: the pages announced by a "Processing page" line, and
  the pages whose outcome was printed, with the exception for a page that failed.
\<close>

definition attempted_pages :: "event list \<Rightarrow> int list" where
  "attempted_pages evs =
     concat (map (\<lambda>ev. case ev of Processing n \<Rightarrow> [n] | _ \<Rightarrow> []) evs)"

definition page_outcomes :: "event list \<Rightarrow> (int \<times> error option) list" where
  "page_outcomes evs =
     concat (map (\<lambda>ev. case ev of Stored n _ \<Rightarrow> [(n, None)]
                               | Failed n e \<Rightarrow> [(n, Some e)]
                               | _ \<Rightarrow> []) evs)"

subsection \<open>A concrete outside world\<close>

text \<open>
  A small outside world on which the definitions can be run: its hidden state counts
  the calls made so far, the PDF has three pages, the embedding of a text is its
  length, and the vision model fails on the second page.
\<close>

definition example_services :: "(nat, nat) ingest_services" where
  "example_services =
     \<lparr>temporary_directory = (\<lambda>x. (Inr (lit ''/tmp/t''), Suc x)),
      cleanup = (\<lambda>_ x. (Inr (), Suc x)),
      path_join = (\<lambda>a b. a @ lit ''/'' @ b),
      fitz_open = (\<lambda>_ x. (Inr 3, Suc x)),
      render_page = (\<lambda>_ _ _ x. (Inr (), Suc x)),
      convert_to_jpeg = (\<lambda>p x. (Inr p, Suc x)),
      getsize = (\<lambda>_ x. (Inr 2048, Suc x)),
      extract_page_detail = (\<lambda>p x.
        if p = lit ''/tmp/t/page_2.png'' then (Inl (Exception (lit ''timeout'')), Suc x)
        else (Inr (lit ''| a | b |''), Suc x)),
      generate_page_summary = (\<lambda>_ x. (Inr (lit ''- a''), Suc x)),
      create_embedding = (\<lambda>t x. (Inr (length t), Suc x)),
      upload_documents = (\<lambda>_ x. (Inr (), Suc x))\<rparr>"

definition empty_world :: "(nat, nat) world" where
  "empty_world = \<lparr>ext = 0, stdout = [], index_uploads = []\<rparr>"

section \<open>The chat application (app.py)\<close>

subsection \<open>retrieve_documents (app.py, lines 97-122)\<close>

text \<open>
  A search result \<open>r\<close> is a dict from field names to JSON values (of type \<open>'j\<close>);
  \<open>r["content"]\<close> raises \<open>KeyError\<close> when the field is missing. The dict that
  \<open>retrieve_documents\<close> builds for a result is a list of (key, value) pairs in the order
  of the dict literal of lines 115-120.
\<close>

type_synonym 'j search_result = "pystr \<rightharpoonup> 'j"
type_synonym 'j retrieved = "(pystr \<times> 'j) list"

definition getitem :: "'j search_result \<Rightarrow> pystr \<Rightarrow> error + 'j" where
  "getitem r k = (case r k of None \<Rightarrow> Inl (KeyError k) | Some v \<Rightarrow> Inr v)"

definition select_fields :: "'j search_result \<Rightarrow> error + 'j retrieved" where
  "select_fields r =
     (case getitem r (lit ''content'') of Inl e \<Rightarrow> Inl e | Inr c \<Rightarrow>
     (case getitem r (lit ''doc'') of Inl e \<Rightarrow> Inl e | Inr d \<Rightarrow>
     (case getitem r (lit ''page'') of Inl e \<Rightarrow> Inl e | Inr p \<Rightarrow>
     (case getitem r (lit ''content_type'') of Inl e \<Rightarrow> Inl e | Inr t \<Rightarrow>
      Inr [(lit ''content'', c), (lit ''doc'', d), (lit ''page'', p),
           (lit ''content_type'', t)]))))"

text \<open>The loop of lines 113-120.\<close>

fun collect_docs :: "'j search_result list \<Rightarrow> 'j retrieved list \<Rightarrow> error + 'j retrieved list" where
  "collect_docs [] docs = Inr docs"
| "collect_docs (r # results) docs =
     (case select_fields r of
        Inl e \<Rightarrow> Inl e
      | Inr d \<Rightarrow> collect_docs results (docs @ [d]))"

text \<open>
  The calls of app.py that leave the repository. \<open>embed_query\<close> and
  \<open>generate_answer_stream\<close> are functions of the source whose body is one service call.
  \<open>search\<close> is \<open>search_client.search\<close> with the query vector and \<open>k\<close>, read to its end: the
  results in the order the service yields them, or the exception raised on the way.
  A response stream is the chunks it delivers and the exception that ends it, if one does.
\<close>

datatype delta = Delta "pystr option"
datatype choice = Choice "delta option"
datatype chunk = Chunk "choice list"

type_synonym stream = "chunk list \<times> error option"

record ('v, 'j, 'x) app_services =
  embed_query :: "pystr \<Rightarrow> 'x \<Rightarrow> (error + 'v) \<times> 'x"
  search :: "'v \<Rightarrow> int \<Rightarrow> 'x \<Rightarrow> (error + 'j search_result list) \<times> 'x"
  generate_answer_stream :: "pystr \<Rightarrow> 'j retrieved list \<Rightarrow> 'x \<Rightarrow> (error + stream) \<times> 'x"

definition retrieve_documents ::
  "('v, 'j, 'x) app_services \<Rightarrow> pystr \<Rightarrow> int \<Rightarrow>
   ('j retrieved list, ('x, 'm) ext_state_scheme) io" where
  "retrieve_documents sv query top_k =
     bind_io (call (embed_query sv query)) (\<lambda>vector.
     bind_io (call (search sv vector top_k)) (\<lambda>results w.
     (collect_docs results [], w)))"

subsection \<open>The chat loop (app.py, lines 173-217)\<close>

record message =
  role :: pystr
  msg_content :: pystr

text \<open>
  \<open>st.session_state\<close>: the key \<open>messages\<close> and the key \<open>suggested_input\<close> are each present
  or absent.
\<close>

record 'x session = "'x ext_state" +
  messages :: "message list option"
  suggested_input :: "pystr option"

text \<open>
  One run of the script is started by at most one widget: a suggested-question button,
  the Clear Chat button, or a text sent through the chat input.
\<close>

datatype ui_event = NoInteraction | SuggestedButton nat | ClearChatButton | ChatInput pystr

definition suggested_questions :: "pystr list" where
  "suggested_questions =
     [lit ''Provide summary on Swiggy Annual Report 2023-24'',
      lit ''Compare financial data between 2023-24'']"

text \<open>Lines 27-29: the button that was pressed stores its question.\<close>

definition suggested_buttons :: "ui_event \<Rightarrow> 'x session \<Rightarrow> 'x session" where
  "suggested_buttons ev s =
     (case ev of
        SuggestedButton i \<Rightarrow>
          (if i < length suggested_questions
           then s\<lparr>suggested_input := Some (suggested_questions ! i)\<rparr> else s)
      | _ \<Rightarrow> s)"

text \<open>\<open>st.session_state.messages.append(m)\<close>\<close>

definition append_message :: "message \<Rightarrow> (unit, 'x session) io" where
  "append_message m s =
     (case messages s of
        None \<Rightarrow> (Inl (AttributeError (lit ''messages'')), s)
      | Some ms \<Rightarrow> (Inr (), s\<lparr>messages := Some (ms @ [m])\<rparr>))"

text \<open>Lines 207-212: the token of a chunk, empty when the chunk carries none.\<close>

fun chunk_token :: "chunk \<Rightarrow> pystr" where
  "chunk_token (Chunk []) = []"
| "chunk_token (Chunk (Choice None # _)) = []"
| "chunk_token (Chunk (Choice (Some (Delta None)) # _)) = []"
| "chunk_token (Chunk (Choice (Some (Delta (Some token))) # _)) = token"

fun accumulate :: "chunk list \<Rightarrow> pystr \<Rightarrow> pystr" where
  "accumulate [] full_response = full_response"
| "accumulate (c # cs) full_response =
     (let token = chunk_token c
      in if token \<noteq> [] then accumulate cs (full_response @ token)
         else accumulate cs full_response)"

definition consume :: "stream \<Rightarrow> (pystr, 'w) io" where
  "consume st w =
     (case snd st of
        Some e \<Rightarrow> (Inl e, w)
      | None \<Rightarrow> (Inr (accumulate (fst st) []), w))"

text \<open>Lines 187-217, for a user input that is not empty.\<close>

definition chat_turn :: "('v, 'j, 'x) app_services \<Rightarrow> pystr \<Rightarrow> (unit, 'x session) io" where
  "chat_turn sv user_input =
     bind_io (append_message \<lparr>role = lit ''user'', msg_content = user_input\<rparr>) (\<lambda>_.
     bind_io (retrieve_documents sv user_input 5) (\<lambda>contexts.
     bind_io (call (generate_answer_stream sv user_input contexts)) (\<lambda>st.
     bind_io (consume st) (\<lambda>full_response.
     append_message \<lparr>role = lit ''assistant'', msg_content = full_response\<rparr>))))"

text \<open>Lines 173-217: the history is created when absent, a stored suggestion replaces
  the chat input and is removed, and a non-empty input starts a turn.\<close>

definition chat_ui :: "('v, 'j, 'x) app_services \<Rightarrow> ui_event \<Rightarrow> (unit, 'x session) io" where
  "chat_ui sv ev s =
     (let s1 = (if messages s = None then s\<lparr>messages := Some []\<rparr> else s);
          chat_input = (case ev of ChatInput t \<Rightarrow> Some t | _ \<Rightarrow> None);
          user_input = (case suggested_input s1 of Some q \<Rightarrow> Some q | None \<Rightarrow> chat_input);
          s2 = s1\<lparr>suggested_input := None\<rparr>
      in case user_input of
           None \<Rightarrow> (Inr (), s2)
         | Some t \<Rightarrow> if t \<noteq> [] then chat_turn sv t s2 else (Inr (), s2))"

text \<open>
  One execution of the script from its first line. The Clear Chat handler (lines 53-55)
  empties the history and calls \<open>st.rerun()\<close>, which stops this execution and asks for a
  new one; otherwise the script runs to its end or to an exception.
\<close>

datatype 's run = Rerun 's | Finished "(error + unit) \<times> 's"

definition app_script :: "('v, 'j, 'x) app_services \<Rightarrow> ui_event \<Rightarrow> 'x session \<Rightarrow> 'x session run" where
  "app_script sv ev s =
     (let s1 = suggested_buttons ev s
      in if ev = ClearChatButton then Rerun (s1\<lparr>messages := Some []\<rparr>)
         else Finished (chat_ui sv ev s1))"

text \<open>
  What one user interaction does to the session: the script runs with the widget that
  started it and, when it asked for a rerun, once more with no widget active.
\<close>

definition interaction :: "('v, 'j, 'x) app_services \<Rightarrow> ui_event \<Rightarrow> (unit, 'x session) io" where
  "interaction sv ev s =
     (case app_script sv ev s of
        Finished r \<Rightarrow> r
      | Rerun s' \<Rightarrow>
          (case app_script sv NoInteraction s' of
             Finished r \<Rightarrow> r
           | Rerun s'' \<Rightarrow> (Inr (), s'')))"

text \<open>The history that the page shows: no message while the key is absent.\<close>

definition history :: "'x session \<Rightarrow> message list" where
  "history s = (case messages s of None \<Rightarrow> [] | Some ms \<Rightarrow> ms)"

subsection \<open>A concrete outside world for the chat application\<close>

text \<open>
  The search service of this world yields the same two results whatever \<open>k\<close> is, and
  the model answers every question with the same stream of four chunks. JSON values are
  written as their text.
\<close>

definition result_a :: "pystr search_result" where
  "result_a = map_of
     [(lit ''content'', lit ''A''), (lit ''doc'', lit ''r.pdf''), (lit ''page'', lit ''1''),
      (lit ''content_type'', lit ''page_detail''), (lit ''@search.score'', lit ''0.9'')]"

definition result_b :: "pystr search_result" where
  "result_b = map_of
     [(lit ''content'', lit ''B''), (lit ''doc'', lit ''r.pdf''), (lit ''page'', lit ''2''),
      (lit ''content_type'', lit ''page_summary''), (lit ''@search.score'', lit ''0.8'')]"

definition example_app_services :: "(nat, pystr, nat) app_services" where
  "example_app_services =
     \<lparr>embed_query = (\<lambda>q x. (Inr (length q), Suc x)),
      search = (\<lambda>_ _ x. (Inr [result_a, result_b], Suc x)),
      generate_answer_stream = (\<lambda>_ _ x.
        (Inr ([Chunk [],
               Chunk [Choice (Some (Delta (Some (lit ''Hel''))))],
               Chunk [Choice (Some (Delta None))],
               Chunk [Choice (Some (Delta (Some (lit ''lo''))))]], None), Suc x))\<rparr>"

definition new_session :: "nat session" where
  "new_session = \<lparr>ext = 0, messages = None, suggested_input = None\<rparr>"

section \<open>Properties of safe_id\<close>

lemma allowed_underscore: "allowed (cp CHR ''_'')"
  by (simp add: allowed_def)

lemma lit_underscore: "lit ''_'' = [cp CHR ''_'']"
  by (simp add: lit_def cp_def)

lemma safe_id_Nil: "safe_id [] = []"
  by (simp add: safe_id_def)

lemma safe_id_Cons:
  "safe_id (c # cs) = (if allowed c then c else cp CHR ''_'') # safe_id cs"
  by (simp add: safe_id_def lit_underscore)

lemma safe_id_map: "safe_id s = map (\<lambda>c. if allowed c then c else cp CHR ''_'') s"
  by (induction s) (simp_all add: safe_id_Nil safe_id_Cons)

lemma safe_id_append: "safe_id (s @ t) = safe_id s @ safe_id t"
  by (simp add: safe_id_map)

lemma length_safe_id: "length (safe_id s) = length s"
  by (simp add: safe_id_map)

lemma safe_id_allowed: "c \<in> set (safe_id s) \<Longrightarrow> allowed c"
  by (induction s) (auto simp: safe_id_Nil safe_id_Cons allowed_underscore split: if_splits)

text \<open>
  C3. For every input string, every character of the output of \<open>safe_id\<close> is a letter
  a-z or A-Z, a digit 0-9, an underscore, a hyphen or an equals sign.
\<close>

theorem safe_id_charset:
  "\<forall>c \<in> set (safe_id s).
     (97 \<le> c \<and> c \<le> 122) \<or> (65 \<le> c \<and> c \<le> 90) \<or> (48 \<le> c \<and> c \<le> 57) \<or>
     c = 95 \<or> c = 45 \<or> c = 61"
proof
  fix c
  assume "c \<in> set (safe_id s)"
  then have "allowed c"
    by (rule safe_id_allowed)
  then show "(97 \<le> c \<and> c \<le> 122) \<or> (65 \<le> c \<and> c \<le> 90) \<or> (48 \<le> c \<and> c \<le> 57) \<or>
     c = 95 \<or> c = 45 \<or> c = 61"
    by (simp add: allowed_def cp_def)
qed

theorem safe_id_charset_witness:
  "safe_id (lit ''Q3 r'' @ [233] @ lit ''sum.pdf'') = lit ''Q3_r_sum_pdf'' \<and>
   list_all (\<lambda>c. (97 \<le> c \<and> c \<le> 122) \<or> (65 \<le> c \<and> c \<le> 90) \<or> (48 \<le> c \<and> c \<le> 57) \<or>
     c = 95 \<or> c = 45 \<or> c = 61) (lit ''Q3_r_sum_pdf'')"
proof -
  have e: "safe_id (lit ''Q3 r'' @ [233] @ lit ''sum.pdf'') = lit ''Q3_r_sum_pdf''"
    by (simp add: safe_id_map lit_def allowed_def cp_def)
  show ?thesis
    using safe_id_charset [of "lit ''Q3 r'' @ [233] @ lit ''sum.pdf''"]
    unfolding e list_all_iff by (simp add: e)
qed

text \<open>
  C9. \<open>safe_id\<close> is idempotent: sanitising a sanitised string changes nothing.
\<close>

theorem safe_id_idempotent: "safe_id (safe_id s) = safe_id s"
  by (induction s) (simp_all add: safe_id_Nil safe_id_Cons allowed_underscore)




section \<open>Properties of the record id\<close>

lemma digits_range: "c \<in> set (digits n) \<Longrightarrow> 48 \<le> c \<and> c \<le> 57"
proof (induction n arbitrary: c rule: digits.induct)
  case (1 n)
  show ?case
  proof (cases "n < 10")
    case True
    with "1.prems" show ?thesis
      by (simp add: digits.simps [of n] cp_def)
  next
    case False
    with "1.prems" have "c \<in> set (digits (n div 10)) \<or> c = 48 + n mod 10"
      by (auto simp: digits.simps [of n] cp_def)
    then show ?thesis
    proof
      assume "c \<in> set (digits (n div 10))"
      with False show ?thesis by (rule "1.IH")
    next
      assume "c = 48 + n mod 10"
      moreover have "n mod 10 < 10" by simp
      ultimately show ?thesis by linarith
    qed
  qed
qed

lemma digits_value: "foldl (\<lambda>a c. 10 * a + (c - 48)) 0 (digits n) = n"
proof (induction n rule: digits.induct)
  case (1 n)
  show ?case
  proof (cases "n < 10")
    case True
    then show ?thesis
      by (simp add: digits.simps [of n] cp_def)
  next
    case False
    then have "foldl (\<lambda>a c. 10 * a + (c - 48)) 0 (digits (n div 10)) = n div 10"
      by (rule "1.IH")
    with False show ?thesis
      by (simp add: digits.simps [of n] cp_def)
  qed
qed

lemma digits_inj: "digits m = digits n \<Longrightarrow> m = n"
  by (metis digits_value)

lemma digits_no_minus: "cp CHR ''-'' \<notin> set (digits n)"
  using digits_range [of "cp CHR ''-''" n] by (auto simp: cp_def)

lemma digits_not_Nil: "digits n \<noteq> []"
  by (subst digits.simps) simp

lemma str_int_inj: "str_int i = str_int j \<Longrightarrow> i = j"
proof -
  assume e: "str_int i = str_int j"
  have neq: "cp CHR ''-'' # digits a \<noteq> digits b" for a b
    using digits_no_minus [of b] by (metis list.set_intros(1))
  show "i = j"
  proof (cases "i < 0"; cases "j < 0")
    assume "i < 0" "j < 0"
    with e have "nat (- i) = nat (- j)"
      by (simp add: str_int_def digits_inj)
    with \<open>i < 0\<close> \<open>j < 0\<close> show ?thesis by linarith
  next
    assume "i < 0" "\<not> j < 0"
    with e neq show ?thesis by (simp add: str_int_def)
  next
    assume "\<not> i < 0" "j < 0"
    with e neq [of "nat (- j)" "nat i"] show ?thesis by (simp add: str_int_def)
  next
    assume "\<not> i < 0" "\<not> j < 0"
    with e have "nat i = nat j"
      by (simp add: str_int_def digits_inj)
    with \<open>\<not> i < 0\<close> \<open>\<not> j < 0\<close> show ?thesis by linarith
  qed
qed

lemma str_int_no_underscore: "cp CHR ''_'' \<notin> set (str_int i)"
  using digits_range [of "cp CHR ''_''"] by (auto simp: str_int_def cp_def)

lemma split_at_last:
  assumes "xs @ z # d1 = ys @ z # d2" and "z \<notin> set d1" and "z \<notin> set d2"
  shows "xs = ys \<and> d1 = d2"
proof -
  have "takeWhile (\<lambda>c. c \<noteq> z) (rev (xs @ z # d1)) = rev d1"
    using assms(2) by (auto simp: takeWhile_tail)
  moreover have "takeWhile (\<lambda>c. c \<noteq> z) (rev (ys @ z # d2)) = rev d2"
    using assms(3) by (auto simp: takeWhile_tail)
  ultimately have "d1 = d2"
    using assms(1) by (metis rev_is_rev_conv)
  with assms(1) show ?thesis by simp
qed


lemma record_id_content_type:
  assumes "c1 \<in> {lit ''page_detail'', lit ''page_summary''}"
    and "c2 \<in> {lit ''page_detail'', lit ''page_summary''}"
    and "record_id a p c1 = record_id b q c2"
  shows "c1 = c2"
proof -
  from assms(3) have "last (record_id a p c1) = last (record_id b q c2)"
    by simp
  with assms(1,2) show ?thesis
    by (auto simp: record_id_def lit_def)
qed

lemma record_id_inj:
  assumes "c1 \<in> {lit ''page_detail'', lit ''page_summary''}"
    and "c2 \<in> {lit ''page_detail'', lit ''page_summary''}"
    and e: "record_id a p c1 = record_id b q c2"
  shows "a = b \<and> p = q \<and> c1 = c2"
proof -
  have c: "c1 = c2"
    using assms by (rule record_id_content_type)
  from e have "(a @ lit ''_page_'' @ str_int p) @ (lit ''_'' @ c2) =
      (b @ lit ''_page_'' @ str_int q) @ (lit ''_'' @ c2)"
    by (simp add: record_id_def c)
  then have "a @ lit ''_page_'' @ str_int p = b @ lit ''_page_'' @ str_int q"
    using append_same_eq by blast
  then have "(a @ lit ''_page'') @ cp CHR ''_'' # str_int p =
      (b @ lit ''_page'') @ cp CHR ''_'' # str_int q"
    by (simp add: lit_def cp_def)
  then have "a @ lit ''_page'' = b @ lit ''_page'' \<and> str_int p = str_int q"
    by (rule split_at_last) (rule str_int_no_underscore)+
  then show ?thesis
    using c by (simp add: str_int_inj)
qed

text \<open>
  C5. The record id determines the triple it was built from: for the two content types
  that \<open>upload_page\<close> uses, two triples (document name, page number, content type) that
  differ give different ids. This holds for every string as the name, hence for every
  sanitised name, and for every integer as the page number, hence for every positive
  one.
\<close>

theorem record_id_unique:
  assumes "c1 \<in> {lit ''page_detail'', lit ''page_summary''}"
    and "c2 \<in> {lit ''page_detail'', lit ''page_summary''}"
    and "(a, p, c1) \<noteq> (b, q, c2)"
  shows "record_id a p c1 \<noteq> record_id b q c2"
  using assms record_id_inj [of c1 c2 a p b q] by blast

lemma str_int_12: "str_int 12 = lit ''12''"
  by (simp add: str_int_def digits.simps lit_def cp_def)

theorem record_id_unique_witness:
  "record_id (safe_id (lit ''a'')) 12 (lit ''page_detail'') \<noteq>
   record_id (safe_id (lit ''a_page_1'')) 2 (lit ''page_detail'')"
proof -
  have "(safe_id (lit ''a''), 12::int, lit ''page_detail'') \<noteq>
      (safe_id (lit ''a_page_1''), 2, lit ''page_detail'')"
    by simp
  then show ?thesis
    by (rule record_id_unique [rotated 2]) simp_all
qed

section \<open>Properties of the ingestion pipeline\<close>

lemma bind_io_Inr_iff:
  "bind_io m f w = (Inr b, w') \<longleftrightarrow> (\<exists>a w1. m w = (Inr a, w1) \<and> f a w1 = (Inr b, w'))"
  by (auto simp: bind_io_def split: prod.splits sum.splits)

lemma bind_io_Inl_iff:
  "bind_io m f w = (Inl e, w') \<longleftrightarrow>
     m w = (Inl e, w') \<or> (\<exists>a w1. m w = (Inr a, w1) \<and> f a w1 = (Inl e, w'))"
  by (auto simp: bind_io_def split: prod.splits sum.splits)

lemma call_eq_iff:
  "call f w = (r, w') \<longleftrightarrow> (\<exists>x'. f (ext w) = (r, x') \<and> w' = w\<lparr>ext := x'\<rparr>)"
  by (auto simp: call_def split: prod.splits)

lemma return_io_eq_iff: "return_io a w = (r, w') \<longleftrightarrow> r = Inr a \<and> w' = w"
  by (auto simp: return_io_def)

lemma py_print_eq_iff:
  "py_print ev w = (r, w') \<longleftrightarrow> r = Inr () \<and> w' = w\<lparr>stdout := stdout w @ [ev]\<rparr>"
  by (auto simp: py_print_def)

lemma search_upload_Inr_iff:
  "search_upload sv documents w = (Inr u, w') \<longleftrightarrow>
     (\<exists>x'. upload_documents sv documents (ext w) = (Inr (), x') \<and>
        w' = w\<lparr>ext := x', index_uploads := index_uploads w @ [documents]\<rparr>)"
  by (auto simp: search_upload_def bind_io_Inr_iff call_eq_iff)

lemma upload_page_Inr:
  assumes "upload_page sv doc_name page_num yr detail_text summary_text sect w = (Inr u, w')"
  shows "\<exists>v1 v2 x1 x2 x3.
     create_embedding sv detail_text (ext w) = (Inr v1, x1) \<and>
     create_embedding sv summary_text x1 = (Inr v2, x2) \<and>
     upload_documents sv
       [make_document (safe_id doc_name) doc_name page_num yr sect detail_text (lit ''page_detail'') v1,
        make_document (safe_id doc_name) doc_name page_num yr sect summary_text (lit ''page_summary'') v2]
       x2 = (Inr (), x3) \<and>
     w' = w\<lparr>ext := x3,
            stdout := stdout w @ [Stored page_num doc_name],
            index_uploads := index_uploads w @
       [[make_document (safe_id doc_name) doc_name page_num yr sect detail_text (lit ''page_detail'') v1,
        make_document (safe_id doc_name) doc_name page_num yr sect summary_text (lit ''page_summary'') v2]]\<rparr>"
  using assms
  by (auto simp: upload_page_def Let_def bind_io_Inr_iff call_eq_iff return_io_eq_iff search_upload_Inr_iff
      py_print_eq_iff)


lemma search_upload_Inl_iff:
  "search_upload sv documents w = (Inl e, w') \<longleftrightarrow>
     (\<exists>x'. upload_documents sv documents (ext w) = (Inl e, x') \<and> w' = w\<lparr>ext := x'\<rparr>)"
  by (auto simp: search_upload_def bind_io_Inl_iff call_eq_iff)

lemma build_documents_stdout:
  "build_documents sv sn dn pn yr sect pairs docs w = (r, w') \<Longrightarrow> stdout w' = stdout w"
proof (induction pairs arbitrary: docs w)
  case Nil
  then show ?case by (simp add: return_io_eq_iff)
next
  case (Cons pr pairs)
  obtain cont ctype where pr: "pr = (cont, ctype)" by (cases pr)
  obtain r1 x1 where ce: "create_embedding sv cont (ext w) = (r1, x1)"
    by (cases "create_embedding sv cont (ext w)")
  show ?case
  proof (cases r1)
    case (Inl e)
    with Cons.prems ce show ?thesis
      by (auto simp: pr bind_io_def call_def)
  next
    case (Inr vec)
    with Cons.prems ce have
      "build_documents sv sn dn pn yr sect pairs
         (docs @ [make_document sn dn pn yr sect cont ctype vec]) (w\<lparr>ext := x1\<rparr>) = (r, w')"
      by (simp add: pr bind_io_def call_def)
    then have "stdout w' = stdout (w\<lparr>ext := x1\<rparr>)"
      by (rule Cons.IH)
    then show ?thesis by simp
  qed
qed

lemma upload_page_Inl:
  assumes "upload_page sv doc_name page_num yr detail_text summary_text sect w = (Inl e, w')"
  shows "stdout w' = stdout w"
proof -
  let ?build = "build_documents sv (safe_id doc_name) doc_name page_num yr sect
      [(detail_text, lit ''page_detail''), (summary_text, lit ''page_summary'')] []"
  obtain r1 w1 where b: "?build w = (r1, w1)"
    by (cases "?build w")
  then have s1: "stdout w1 = stdout w"
    by (rule build_documents_stdout)
  show ?thesis
  proof (cases r1)
    case (Inl e1)
    with assms b s1 show ?thesis
      by (simp add: upload_page_def Let_def bind_io_def)
  next
    case (Inr documents)
    with assms b have "bind_io (search_upload sv documents)
        (\<lambda>_. py_print (Stored page_num doc_name)) w1 = (Inl e, w')"
      by (simp add: upload_page_def Let_def bind_io_def)
    then have "search_upload sv documents w1 = (Inl e, w')"
      by (auto simp: bind_io_Inl_iff py_print_eq_iff)
    then show ?thesis
      using s1 by (auto simp: search_upload_Inl_iff)
  qed
qed

lemma upload_page_stdout:
  assumes "upload_page sv doc_name page_num yr detail_text summary_text sect w = (r, w')"
  shows "stdout w' = stdout w @ (case r of Inl _ \<Rightarrow> [] | Inr _ \<Rightarrow> [Stored page_num doc_name])"
proof (cases r)
  case (Inl e)
  with assms show ?thesis
    by (simp add: upload_page_Inl)
next
  case (Inr u)
  with assms show ?thesis
    by (auto dest!: upload_page_Inr)
qed

lemma attempted_pages_simps:
  "attempted_pages [] = []"
  "attempted_pages (evs @ evs') = attempted_pages evs @ attempted_pages evs'"
  "attempted_pages (Processing n # evs) = n # attempted_pages evs"
  "attempted_pages (Starting s # evs) = attempted_pages evs"
  "attempted_pages (ImageSize k # evs) = attempted_pages evs"
  "attempted_pages (Stored n d # evs) = attempted_pages evs"
  "attempted_pages (Failed n e # evs) = attempted_pages evs"
  "attempted_pages (Completed # evs) = attempted_pages evs"
  by (simp_all add: attempted_pages_def)

lemma page_outcomes_simps:
  "page_outcomes [] = []"
  "page_outcomes (evs @ evs') = page_outcomes evs @ page_outcomes evs'"
  "page_outcomes (Processing n # evs) = page_outcomes evs"
  "page_outcomes (Starting s # evs) = page_outcomes evs"
  "page_outcomes (ImageSize k # evs) = page_outcomes evs"
  "page_outcomes (Stored n d # evs) = (n, None) # page_outcomes evs"
  "page_outcomes (Failed n e # evs) = (n, Some e) # page_outcomes evs"
  "page_outcomes (Completed # evs) = page_outcomes evs"
  by (simp_all add: page_outcomes_def)

lemma process_page_Inr:
  assumes "process_page sv doc_name yr page_num image_path w = (Inr u, w')"
  shows "\<exists>k. stdout w' = stdout w @ [ImageSize k, Stored page_num doc_name]"
  using assms
  by (auto simp: process_page_def bind_io_Inr_iff call_eq_iff py_print_eq_iff
      dest!: upload_page_stdout)

lemma process_page_Inl:
  assumes "process_page sv doc_name yr page_num image_path w = (Inl e, w')"
  shows "stdout w' = stdout w \<or> (\<exists>k. stdout w' = stdout w @ [ImageSize k])"
  using assms
  by (auto simp: process_page_def bind_io_Inl_iff call_eq_iff py_print_eq_iff
      dest!: upload_page_stdout)

lemma process_page_stdout:
  assumes "process_page sv doc_name yr page_num image_path w = (r, w')"
  shows "\<exists>evs. stdout w' = stdout w @ evs \<and> attempted_pages evs = [] \<and>
     page_outcomes evs = (case r of Inl _ \<Rightarrow> [] | Inr _ \<Rightarrow> [(page_num, None)])"
proof (cases r)
  case (Inl e)
  with assms have "stdout w' = stdout w @ [] \<or> (\<exists>k. stdout w' = stdout w @ [ImageSize k])"
    using process_page_Inl by fastforce
  then show ?thesis
    using Inl by (fastforce simp: attempted_pages_simps page_outcomes_simps)
next
  case (Inr u)
  with assms obtain k where "stdout w' = stdout w @ [ImageSize k, Stored page_num doc_name]"
    using process_page_Inr by blast
  then show ?thesis
    using Inr by (fastforce simp: attempted_pages_simps page_outcomes_simps)
qed

lemma ingest_pages_total:
  "\<exists>w' evs. ingest_pages sv doc_name yr page_images w = (Inr (), w') \<and>
     stdout w' = stdout w @ evs \<and>
     attempted_pages evs = map fst page_images \<and>
     map fst (page_outcomes evs) = map fst page_images"
proof (induction page_images arbitrary: w)
  case Nil
  show ?case
    by (simp add: return_io_def attempted_pages_simps page_outcomes_simps)
next
  case (Cons p page_images)
  obtain page_num image_path where p: "p = (page_num, image_path)"
    by (cases p)
  let ?w0 = "w\<lparr>stdout := stdout w @ [Processing page_num]\<rparr>"
  obtain r w1 where pp: "process_page sv doc_name yr page_num image_path ?w0 = (r, w1)"
    by (cases "process_page sv doc_name yr page_num image_path ?w0")
  from process_page_stdout [OF pp] obtain evs1 where
    evs1: "stdout w1 = stdout ?w0 @ evs1" "attempted_pages evs1 = []"
      "page_outcomes evs1 = (case r of Inl _ \<Rightarrow> [] | Inr _ \<Rightarrow> [(page_num, None)])"
    by blast
  let ?w2 = "case r of Inl e \<Rightarrow> w1\<lparr>stdout := stdout w1 @ [Failed page_num e]\<rparr> | Inr _ \<Rightarrow> w1"
  have step: "ingest_pages sv doc_name yr (p # page_images) w =
      ingest_pages sv doc_name yr page_images ?w2"
    using pp by (simp add: p bind_io_def py_print_def try_except_def split: sum.splits)
  from Cons.IH [of ?w2] obtain w' evs where
    rest: "ingest_pages sv doc_name yr page_images ?w2 = (Inr (), w')"
      "stdout w' = stdout ?w2 @ evs" "attempted_pages evs = map fst page_images"
      "map fst (page_outcomes evs) = map fst page_images"
    by blast
  let ?evs = "[Processing page_num] @ evs1 @ (case r of Inl e \<Rightarrow> [Failed page_num e] | Inr _ \<Rightarrow> []) @ evs"
  have "stdout w' = stdout w @ ?evs"
    using rest(2) evs1(1) by (simp split: sum.splits)
  moreover have "attempted_pages ?evs = map fst (p # page_images)"
    using rest(3) evs1(2) by (simp add: attempted_pages_simps p split: sum.splits)
  moreover have "map fst (page_outcomes ?evs) = map fst (p # page_images)"
    using rest(4) evs1(3) by (simp add: page_outcomes_simps p split: sum.splits)
  ultimately show ?case
    using step rest(1) by metis
qed

lemma ingest_pages_failure_step:
  assumes "process_page sv doc_name yr page_num image_path
             (w\<lparr>stdout := stdout w @ [Processing page_num]\<rparr>) = (Inl e, w1)"
  shows "ingest_pages sv doc_name yr ((page_num, image_path) # rest) w =
         ingest_pages sv doc_name yr rest (w1\<lparr>stdout := stdout w1 @ [Failed page_num e]\<rparr>)"
  using assms by (simp add: bind_io_def py_print_def try_except_def)

lemma ingest_pdf_pages:
  assumes tmp: "temporary_directory sv (ext w) = (Inr tmpdir, x1)"
    and imgs: "pdf_to_images sv pdf_path tmpdir
                 (w\<lparr>ext := x1, stdout := stdout w @ [Starting pdf_path]\<rparr>) = (Inr page_images, w2)"
  shows "\<exists>r w' evs. ingest_pdf sv pdf_path doc_name yr w = (r, w') \<and>
     stdout w' = stdout w2 @ evs \<and>
     attempted_pages evs = map fst page_images \<and>
     map fst (page_outcomes evs) = map fst page_images"
proof -
  let ?w0 = "w\<lparr>stdout := stdout w @ [Starting pdf_path]\<rparr>"
  have w0: "call (temporary_directory sv) ?w0 = (Inr tmpdir, ?w0\<lparr>ext := x1\<rparr>)"
    using tmp by (simp add: call_def)
  have eq: "?w0\<lparr>ext := x1\<rparr> = w\<lparr>ext := x1, stdout := stdout w @ [Starting pdf_path]\<rparr>"
    by simp
  obtain w3 evs where loop: "ingest_pages sv doc_name yr page_images w2 = (Inr (), w3)"
    "stdout w3 = stdout w2 @ evs" "attempted_pages evs = map fst page_images"
    "map fst (page_outcomes evs) = map fst page_images"
    using ingest_pages_total [of sv doc_name yr page_images w2] by blast
  have body: "bind_io (pdf_to_images sv pdf_path tmpdir)
      (\<lambda>page_images. ingest_pages sv doc_name yr page_images) (?w0\<lparr>ext := x1\<rparr>) = (Inr (), w3)"
    using imgs loop(1) unfolding eq by (simp add: bind_io_def)
  obtain rc x4 where cl: "cleanup sv tmpdir (ext w3) = (rc, x4)"
    by (cases "cleanup sv tmpdir (ext w3)")
  show ?thesis
  proof (cases rc)
    case (Inl e)
    have "ingest_pdf sv pdf_path doc_name yr w = (Inl e, w3\<lparr>ext := x4\<rparr>)"
      using w0 body cl Inl
      by (simp add: ingest_pdf_def with_temporary_directory_def bind_io_def py_print_def call_def)
    with loop show ?thesis by simp
  next
    case (Inr u)
    have "ingest_pdf sv pdf_path doc_name yr w =
        (Inr (), w3\<lparr>ext := x4, stdout := stdout w3 @ [Completed]\<rparr>)"
      using w0 body cl Inr
      by (simp add: ingest_pdf_def with_temporary_directory_def bind_io_def py_print_def call_def)
    moreover have "attempted_pages (evs @ [Completed]) = map fst page_images"
      using loop(3) by (simp add: attempted_pages_simps)
    moreover have "map fst (page_outcomes (evs @ [Completed])) = map fst page_images"
      using loop(4) by (simp add: page_outcomes_simps)
    ultimately show ?thesis
      using loop(2)
      by (intro exI [of _ "Inr ()"] exI [of _ "w3\<lparr>ext := x4, stdout := stdout w3 @ [Completed]\<rparr>"]
          exI [of _ "evs @ [Completed]"]) simp
  qed
qed

text \<open>
  C1. An exception raised while a page is processed (JPEG conversion, size, vision
  extraction, summary, embedding or upload) is caught: the loop prints the failure for
  that page and goes on with the pages that remain. Hence, once the PDF has been turned
  into page images, \<open>ingest_pdf\<close> announces every page, in order, and prints exactly one
  outcome for each of them, stored or failed, whatever the calls for the pages raise.
\<close>

theorem ingest_pdf_continues_after_failure:
  "(process_page sv doc_name yr page_num image_path
       (w\<lparr>stdout := stdout w @ [Processing page_num]\<rparr>) = (Inl e, w1) \<longrightarrow>
     ingest_pages sv doc_name yr ((page_num, image_path) # rest) w =
     ingest_pages sv doc_name yr rest (w1\<lparr>stdout := stdout w1 @ [Failed page_num e]\<rparr>)) \<and>
   (temporary_directory sv (ext v) = (Inr tmpdir, x1) \<longrightarrow>
    pdf_to_images sv pdf_path tmpdir
       (v\<lparr>ext := x1, stdout := stdout v @ [Starting pdf_path]\<rparr>) = (Inr page_images, v2) \<longrightarrow>
    (\<exists>r v' evs. ingest_pdf sv pdf_path doc_name yr v = (r, v') \<and>
       stdout v' = stdout v2 @ evs \<and>
       attempted_pages evs = map fst page_images \<and>
       map fst (page_outcomes evs) = map fst page_images))"
  using ingest_pages_failure_step [of sv doc_name yr page_num image_path w e w1 rest]
    ingest_pdf_pages [of sv v tmpdir x1 pdf_path page_images v2 doc_name yr]
  by blast


text \<open>The run on the concrete outside world, where the second of three pages fails.\<close>

lemma str_int_small: "str_int 1 = lit ''1''" "str_int 2 = lit ''2''" "str_int 3 = lit ''3''"
  by (simp_all add: str_int_def digits.simps lit_def cp_def)

lemma upt_3: "[0..<3] = [0, 1, 2]"
  by code_simp

lemma example_process_page_2:
  "process_page example_services (lit ''Q3 r.pdf'') (lit ''FY24'') 2 (lit ''/tmp/t/page_2.png'')
     (empty_world\<lparr>stdout := stdout empty_world @ [Processing 2]\<rparr>) =
   (Inl (Exception (lit ''timeout'')),
    \<lparr>ext = 3, stdout = [Processing 2, ImageSize 2048], index_uploads = []\<rparr>)"
  by (simp add: process_page_def bind_io_def call_def py_print_def example_services_def
      empty_world_def)

lemma example_temporary_directory:
  "temporary_directory example_services (ext empty_world) = (Inr (lit ''/tmp/t''), 1)"
  by (simp add: example_services_def empty_world_def)

lemma example_pdf_to_images:
  "pdf_to_images example_services (lit ''f.pdf'') (lit ''/tmp/t'')
     (empty_world\<lparr>ext := 1, stdout := stdout empty_world @ [Starting (lit ''f.pdf'')]\<rparr>) =
   (Inr [(1, lit ''/tmp/t/page_1.png''), (2, lit ''/tmp/t/page_2.png''),
         (3, lit ''/tmp/t/page_3.png'')],
    \<lparr>ext = 5, stdout = [Starting (lit ''f.pdf'')], index_uploads = []\<rparr>)"
  by (simp add: pdf_to_images_def bind_io_def call_def return_io_def example_services_def
      empty_world_def upt_3 str_int_small lit_def)

theorem ingest_pdf_continues_after_failure_witness:
  "ingest_pages example_services (lit ''Q3 r.pdf'') (lit ''FY24'')
     [(2, lit ''/tmp/t/page_2.png''), (3, lit ''/tmp/t/page_3.png'')] empty_world =
   ingest_pages example_services (lit ''Q3 r.pdf'') (lit ''FY24'')
     [(3, lit ''/tmp/t/page_3.png'')]
     \<lparr>ext = 3,
      stdout = [Processing 2, ImageSize 2048, Failed 2 (Exception (lit ''timeout''))],
      index_uploads = []\<rparr> \<and>
   (\<exists>r v' evs.
      ingest_pdf example_services (lit ''f.pdf'') (lit ''Q3 r.pdf'') (lit ''FY24'') empty_world =
        (r, v') \<and>
      stdout v' = [Starting (lit ''f.pdf'')] @ evs \<and>
      attempted_pages evs = [1, 2, 3] \<and>
      map fst (page_outcomes evs) = [1, 2, 3])"
  using ingest_pdf_continues_after_failure
    [of example_services "lit ''Q3 r.pdf''" "lit ''FY24''" 2 "lit ''/tmp/t/page_2.png''"
      empty_world "Exception (lit ''timeout'')"
      "\<lparr>ext = 3, stdout = [Processing 2, ImageSize 2048], index_uploads = []\<rparr>"
      "[(3, lit ''/tmp/t/page_3.png'')]" empty_world "lit ''/tmp/t''" 1 "lit ''f.pdf''"
      "[(1, lit ''/tmp/t/page_1.png''), (2, lit ''/tmp/t/page_2.png''),
         (3, lit ''/tmp/t/page_3.png'')]"
      "\<lparr>ext = 5, stdout = [Starting (lit ''f.pdf'')], index_uploads = []\<rparr>"]
  unfolding example_process_page_2 example_temporary_directory example_pdf_to_images
  by simp

subsection \<open>upload_page\<close>

text \<open>Two calls of \<open>upload_page\<close> on the concrete outside world: a page, and the same page
  ingested again with other texts.\<close>

lemma safe_id_example: "safe_id (lit ''Q3 r.pdf'') = lit ''Q3_r_pdf''"
  by (simp add: safe_id_map lit_def allowed_def cp_def)

lemma example_upload_page:
  "upload_page example_services (lit ''Q3 r.pdf'') 1 (lit ''FY24'') (lit ''d'') (lit ''s'')
     (lit ''Auto-detected'') empty_world =
   (Inr (),
    \<lparr>ext = 3, stdout = [Stored 1 (lit ''Q3 r.pdf'')],
     index_uploads =
       [[make_document (lit ''Q3_r_pdf'') (lit ''Q3 r.pdf'') 1 (lit ''FY24'')
           (lit ''Auto-detected'') (lit ''d'') (lit ''page_detail'') (length (lit ''d'')),
         make_document (lit ''Q3_r_pdf'') (lit ''Q3 r.pdf'') 1 (lit ''FY24'')
           (lit ''Auto-detected'') (lit ''s'') (lit ''page_summary'') (length (lit ''s''))]]\<rparr>)"
  by (simp add: upload_page_def Let_def bind_io_def call_def return_io_def search_upload_def
      py_print_def example_services_def empty_world_def safe_id_example)

lemma example_upload_page_again:
  "upload_page example_services (lit ''Q3 r.pdf'') 1 (lit ''FY25'') (lit ''dd'') (lit ''sss'')
     (lit ''Auto-detected'')
     \<lparr>ext = 3, stdout = [Stored 1 (lit ''Q3 r.pdf'')],
      index_uploads =
        [[make_document (lit ''Q3_r_pdf'') (lit ''Q3 r.pdf'') 1 (lit ''FY24'')
            (lit ''Auto-detected'') (lit ''d'') (lit ''page_detail'') (length (lit ''d'')),
          make_document (lit ''Q3_r_pdf'') (lit ''Q3 r.pdf'') 1 (lit ''FY24'')
            (lit ''Auto-detected'') (lit ''s'') (lit ''page_summary'') (length (lit ''s''))]]\<rparr> =
   (Inr (),
    \<lparr>ext = 6, stdout = [Stored 1 (lit ''Q3 r.pdf''), Stored 1 (lit ''Q3 r.pdf'')],
     index_uploads =
       [[make_document (lit ''Q3_r_pdf'') (lit ''Q3 r.pdf'') 1 (lit ''FY24'')
           (lit ''Auto-detected'') (lit ''d'') (lit ''page_detail'') (length (lit ''d'')),
         make_document (lit ''Q3_r_pdf'') (lit ''Q3 r.pdf'') 1 (lit ''FY24'')
           (lit ''Auto-detected'') (lit ''s'') (lit ''page_summary'') (length (lit ''s''))],
        [make_document (lit ''Q3_r_pdf'') (lit ''Q3 r.pdf'') 1 (lit ''FY25'')
           (lit ''Auto-detected'') (lit ''dd'') (lit ''page_detail'') (length (lit ''dd'')),
         make_document (lit ''Q3_r_pdf'') (lit ''Q3 r.pdf'') 1 (lit ''FY25'')
           (lit ''Auto-detected'') (lit ''sss'') (lit ''page_summary'') (length (lit ''sss''))]]\<rparr>)"
  by (simp add: upload_page_def Let_def bind_io_def call_def return_io_def search_upload_def
      py_print_def example_services_def safe_id_example)

lemma example_ids:
  "lit ''Q3_r_pdf'' @ lit ''_page_'' @ lit ''1'' @ lit ''_'' @ lit ''page_detail'' =
     lit ''Q3_r_pdf_page_1_page_detail''"
  "lit ''Q3_r_pdf'' @ lit ''_page_'' @ lit ''1'' @ lit ''_'' @ lit ''page_summary'' =
     lit ''Q3_r_pdf_page_1_page_summary''"
  by (simp_all add: lit_def)

text \<open>
  C2. The ids that \<open>upload_page\<close> gives to the documents of a page depend on the document
  name and the page number only: two calls for the same name and page, whatever the
  services answer, the texts, the year, the section and the state of the world are,
  upload documents with the same ids, the sanitised name followed by \<open>_page_\<close>, the page
  number, an underscore and the content type.
\<close>

theorem upload_page_ids_deterministic:
  assumes "upload_page sv1 doc_name page_num yr1 detail1 summary1 sect1 w1 = (Inr u1, w1')"
    and "upload_page sv2 doc_name page_num yr2 detail2 summary2 sect2 w2 = (Inr u2, w2')"
  shows "\<exists>docs1 docs2.
     index_uploads w1' = index_uploads w1 @ [docs1] \<and>
     index_uploads w2' = index_uploads w2 @ [docs2] \<and>
     map id_field docs1 = map id_field docs2 \<and>
     map id_field docs1 =
       [safe_id doc_name @ lit ''_page_'' @ str_int page_num @ lit ''_'' @ lit ''page_detail'',
        safe_id doc_name @ lit ''_page_'' @ str_int page_num @ lit ''_'' @ lit ''page_summary'']"
proof -
  from upload_page_Inr [OF assms(1)] obtain docs1 where
    1: "index_uploads w1' = index_uploads w1 @ [docs1]"
      "map id_field docs1 =
        [record_id (safe_id doc_name) page_num (lit ''page_detail''),
         record_id (safe_id doc_name) page_num (lit ''page_summary'')]"
    by (auto simp: make_document_def)
  from upload_page_Inr [OF assms(2)] obtain docs2 where
    2: "index_uploads w2' = index_uploads w2 @ [docs2]"
      "map id_field docs2 =
        [record_id (safe_id doc_name) page_num (lit ''page_detail''),
         record_id (safe_id doc_name) page_num (lit ''page_summary'')]"
    by (auto simp: make_document_def)
  from 1 2 show ?thesis
    unfolding record_id_def by metis
qed

theorem upload_page_ids_deterministic_witness:
  "\<exists>w1' w2' docs1 docs2.
     upload_page example_services (lit ''Q3 r.pdf'') 1 (lit ''FY24'') (lit ''d'') (lit ''s'')
       (lit ''Auto-detected'') empty_world = (Inr (), w1') \<and>
     upload_page example_services (lit ''Q3 r.pdf'') 1 (lit ''FY25'') (lit ''dd'') (lit ''sss'')
       (lit ''Auto-detected'') w1' = (Inr (), w2') \<and>
     index_uploads w2' = [docs1, docs2] \<and>
     map id_field docs1 = map id_field docs2 \<and>
     map id_field docs1 =
       [lit ''Q3_r_pdf_page_1_page_detail'', lit ''Q3_r_pdf_page_1_page_summary'']"
  using upload_page_ids_deterministic [OF example_upload_page example_upload_page_again]
    example_upload_page example_upload_page_again
  by (simp add: empty_world_def safe_id_example str_int_small example_ids make_document_def
      record_id_def)

text \<open>
  C7. A call of \<open>upload_page\<close> that returns has sent exactly one batch to the index, of
  exactly two documents: the first has content type \<open>page_detail\<close> and carries the detail
  text, the second has content type \<open>page_summary\<close> and carries the summary text, and the
  vector of each is what the embedding service returned for that document's content.
\<close>

theorem upload_page_two_documents:
  assumes "upload_page sv doc_name page_num yr detail_text summary_text sect w = (Inr u, w')"
  shows "\<exists>d s x1 x2 x3.
     index_uploads w' = index_uploads w @ [[d, s]] \<and>
     content_type d = lit ''page_detail'' \<and> content d = detail_text \<and>
     content_type s = lit ''page_summary'' \<and> content s = summary_text \<and>
     create_embedding sv (content d) (ext w) = (Inr (contentVector d), x1) \<and>
     create_embedding sv (content s) x1 = (Inr (contentVector s), x2) \<and>
     upload_documents sv [d, s] x2 = (Inr (), x3)"
proof -
  from upload_page_Inr [OF assms] obtain v1 v2 x1 x2 x3 where
    e: "create_embedding sv detail_text (ext w) = (Inr v1, x1)"
       "create_embedding sv summary_text x1 = (Inr v2, x2)"
       "upload_documents sv
          [make_document (safe_id doc_name) doc_name page_num yr sect detail_text (lit ''page_detail'') v1,
           make_document (safe_id doc_name) doc_name page_num yr sect summary_text (lit ''page_summary'') v2]
          x2 = (Inr (), x3)"
       "w' = w\<lparr>ext := x3,
            stdout := stdout w @ [Stored page_num doc_name],
            index_uploads := index_uploads w @
       [[make_document (safe_id doc_name) doc_name page_num yr sect detail_text (lit ''page_detail'') v1,
        make_document (safe_id doc_name) doc_name page_num yr sect summary_text (lit ''page_summary'') v2]]\<rparr>"
    by blast
  let ?d = "make_document (safe_id doc_name) doc_name page_num yr sect detail_text (lit ''page_detail'') v1"
  let ?s = "make_document (safe_id doc_name) doc_name page_num yr sect summary_text (lit ''page_summary'') v2"
  have "index_uploads w' = index_uploads w @ [[?d, ?s]]"
    using e(4) by simp
  moreover have "content_type ?d = lit ''page_detail''" "content ?d = detail_text"
    "content_type ?s = lit ''page_summary''" "content ?s = summary_text"
    "contentVector ?d = v1" "contentVector ?s = v2"
    by (simp_all add: make_document_def)
  ultimately show ?thesis
    using e(1,2,3) by (intro exI [of _ ?d] exI [of _ ?s] exI [of _ x1] exI [of _ x2] exI [of _ x3]) simp
qed

theorem upload_page_two_documents_witness:
  "\<exists>w' d s x1 x2 x3.
     upload_page example_services (lit ''Q3 r.pdf'') 1 (lit ''FY24'') (lit ''d'') (lit ''s'')
       (lit ''Auto-detected'') empty_world = (Inr (), w') \<and>
     index_uploads w' = [[d, s]] \<and>
     content_type d = lit ''page_detail'' \<and> content d = lit ''d'' \<and>
     content_type s = lit ''page_summary'' \<and> content s = lit ''s'' \<and>
     create_embedding example_services (content d) 0 = (Inr (contentVector d), x1) \<and>
     create_embedding example_services (content s) x1 = (Inr (contentVector s), x2) \<and>
     upload_documents example_services [d, s] x2 = (Inr (), x3)"
  using upload_page_two_documents [OF example_upload_page] example_upload_page
  by (simp add: empty_world_def make_document_def)

text \<open>
  C10. Every document that \<open>upload_page\<close> uploads carries in its field \<open>doc\<close> the document
  name as it was passed, unsanitised; the sanitised name appears in the id only.
\<close>

theorem upload_page_keeps_original_name:
  assumes "upload_page sv doc_name page_num yr detail_text summary_text sect w = (Inr u, w')"
  shows "\<exists>docs. index_uploads w' = index_uploads w @ [docs] \<and> docs \<noteq> [] \<and>
     (\<forall>d \<in> set docs. doc d = doc_name \<and>
        id_field d = safe_id doc_name @ lit ''_page_'' @ str_int page_num @ lit ''_'' @ content_type d)"
proof -
  from upload_page_Inr [OF assms] show ?thesis
    by (auto simp: make_document_def record_id_def)
qed


theorem upload_page_keeps_original_name_witness:
  "\<exists>w' docs.
     upload_page example_services (lit ''Q3 r.pdf'') 1 (lit ''FY24'') (lit ''d'') (lit ''s'')
       (lit ''Auto-detected'') empty_world = (Inr (), w') \<and>
     index_uploads w' = [docs] \<and> docs \<noteq> [] \<and>
     (\<forall>d \<in> set docs. doc d = lit ''Q3 r.pdf'' \<and>
        id_field d = lit ''Q3_r_pdf_page_1_'' @ content_type d)"
  using upload_page_keeps_original_name [OF example_upload_page] example_upload_page
  by (simp add: empty_world_def safe_id_map allowed_def cp_def str_int_small lit_def
      make_document_def record_id_def)

section \<open>Properties of the chat application\<close>

subsection \<open>retrieve_documents\<close>

lemma collect_docs_Inr_iff:
  "collect_docs results acc = Inr docs \<longleftrightarrow>
     (\<exists>ds. map select_fields results = map Inr ds \<and> docs = acc @ ds)"
proof (induction results arbitrary: acc)
  case Nil
  show ?case by auto
next
  case (Cons r results)
  show ?case
  proof (cases "select_fields r")
    case (Inl e)
    then show ?thesis by (auto simp: map_eq_Cons_conv)
  next
    case (Inr d)
    then show ?thesis
      by (auto simp: Cons.IH map_eq_Cons_conv Cons_eq_map_conv)
  qed
qed

lemma retrieve_documents_Inr_iff:
  "retrieve_documents sv query top_k w = (Inr docs, w') \<longleftrightarrow>
     (\<exists>vector x1 results x2.
        embed_query sv query (ext w) = (Inr vector, x1) \<and>
        search sv vector top_k x1 = (Inr results, x2) \<and>
        map select_fields results = map Inr docs \<and>
        w' = w\<lparr>ext := x2\<rparr>)"
  by (auto simp: retrieve_documents_def bind_io_Inr_iff call_eq_iff collect_docs_Inr_iff)

lemma example_select_fields:
  "select_fields result_a =
     Inr [(lit ''content'', lit ''A''), (lit ''doc'', lit ''r.pdf''), (lit ''page'', lit ''1''),
          (lit ''content_type'', lit ''page_detail'')]"
  "select_fields result_b =
     Inr [(lit ''content'', lit ''B''), (lit ''doc'', lit ''r.pdf''), (lit ''page'', lit ''2''),
          (lit ''content_type'', lit ''page_summary'')]"
  by (simp_all add: select_fields_def getitem_def result_a_def result_b_def lit_def)

lemma example_retrieve_documents:
  "retrieve_documents example_app_services (lit ''q'') top_k new_session =
   (Inr [[(lit ''content'', lit ''A''), (lit ''doc'', lit ''r.pdf''), (lit ''page'', lit ''1''),
          (lit ''content_type'', lit ''page_detail'')],
         [(lit ''content'', lit ''B''), (lit ''doc'', lit ''r.pdf''), (lit ''page'', lit ''2''),
          (lit ''content_type'', lit ''page_summary'')]],
    new_session\<lparr>ext := 2\<rparr>)"
  by (simp add: retrieve_documents_def bind_io_def call_def example_app_services_def
      new_session_def example_select_fields)

text \<open>
  C6, as the code has it. \<open>retrieve_documents\<close> hands \<open>top_k\<close> to the search service as the
  \<open>k\<close> of the vector query and then copies what the service yields: a call that returns
  gives exactly one document for each result, in the order of the results, each made
  of the result's content, doc, page and content_type. It cuts nothing off, so the list
  has at most \<open>top_k\<close> documents whenever the service yielded at most \<open>top_k\<close> results.
\<close>

theorem retrieve_documents_preserves_results:
  assumes "retrieve_documents sv query top_k w = (Inr docs, w')"
  shows "\<exists>vector x1 results x2.
     embed_query sv query (ext w) = (Inr vector, x1) \<and>
     search sv vector top_k x1 = (Inr results, x2) \<and>
     w' = w\<lparr>ext := x2\<rparr> \<and>
     map select_fields results = map Inr docs \<and>
     length docs = length results \<and>
     (int (length results) \<le> top_k \<longrightarrow> int (length docs) \<le> top_k)"
proof -
  from assms obtain vector x1 results x2 where
    e: "embed_query sv query (ext w) = (Inr vector, x1)"
       "search sv vector top_k x1 = (Inr results, x2)"
       "map select_fields results = map Inr docs" "w' = w\<lparr>ext := x2\<rparr>"
    unfolding retrieve_documents_Inr_iff by blast
  from e(3) have "length docs = length results"
    by (metis length_map)
  with e show ?thesis by auto
qed


theorem retrieve_documents_preserves_results_witness:
  "retrieve_documents example_app_services (lit ''q'') 5 new_session =
   (Inr [[(lit ''content'', lit ''A''), (lit ''doc'', lit ''r.pdf''), (lit ''page'', lit ''1''),
          (lit ''content_type'', lit ''page_detail'')],
         [(lit ''content'', lit ''B''), (lit ''doc'', lit ''r.pdf''), (lit ''page'', lit ''2''),
          (lit ''content_type'', lit ''page_summary'')]],
    new_session\<lparr>ext := 2\<rparr>) \<and>
   search example_app_services (length (lit ''q'')) 5 1 = (Inr [result_a, result_b], 2) \<and>
   int (length [result_a, result_b]) \<le> 5"
  using retrieve_documents_preserves_results [OF example_retrieve_documents [of 5]]
    example_retrieve_documents [of 5]
  by (simp add: example_app_services_def)

text \<open>
  C6, as the claim has it, asks for at most \<open>top_k\<close> documents for every sequence of
  results. For a service that yields two results when asked for one, the function
  returns both.
\<close>

theorem retrieve_documents_top_k_counterexample:
  "retrieve_documents example_app_services (lit ''q'') 1 new_session =
   (Inr [[(lit ''content'', lit ''A''), (lit ''doc'', lit ''r.pdf''), (lit ''page'', lit ''1''),
          (lit ''content_type'', lit ''page_detail'')],
         [(lit ''content'', lit ''B''), (lit ''doc'', lit ''r.pdf''), (lit ''page'', lit ''2''),
          (lit ''content_type'', lit ''page_summary'')]],
    new_session\<lparr>ext := 2\<rparr>) \<and>
   \<not> int (length
      [[(lit ''content'', lit ''A''), (lit ''doc'', lit ''r.pdf''), (lit ''page'', lit ''1''),
        (lit ''content_type'', lit ''page_detail'')],
       [(lit ''content'', lit ''B''), (lit ''doc'', lit ''r.pdf''), (lit ''page'', lit ''2''),
        (lit ''content_type'', lit ''page_summary'')]]) \<le> 1"
  by (simp add: example_retrieve_documents)

end
